theory Spec2Isabelle
  imports Complex_Main "HOL-Library.AList"
begin

section \<open>Pipeline-parallel RPC plugin (pytorch\_lightning/plugins/pipe\_rpc\_plugin.py)\<close>

text \<open>
  A shallow embedding of \<^verbatim>\<open>PipeRPCPlugin\<close> and of the module-level worker callbacks
  \<^verbatim>\<open>run_optimizer\<close>, \<^verbatim>\<open>save\<close> and \<^verbatim>\<open>reload_sequential\<close>.
  Python exceptions are values of \<open>error\<close>; a method that mutates \<^verbatim>\<open>self\<close> or the
  environment returns its result paired with the state it leaves behind, also when it
  raises, since the mutations made before a raise persist.
\<close>

subsection \<open>Exceptions\<close>

datatype error =
    MisconfigurationException string
  | AssertionError string
  | ZeroDivisionError
  | TypeError string
  | AttributeError string
  | KeyError string
  | IndexError
  | FileNotFoundError string
  | UnpicklingError string

subsection \<open>Decimal formatting of integers, as f-strings and \<^verbatim>\<open>str\<close> do it\<close>

definition digit_char :: "nat \<Rightarrow> char" where
  "digit_char d = char_of (48 + d)"

function str_nat :: "nat \<Rightarrow> string" where
  "str_nat n = (if n < 10 then [digit_char n] else str_nat (n div 10) @ [digit_char (n mod 10)])"
  by pat_completeness auto
termination
  by (relation "measure id") auto

declare str_nat.simps [simp del]

definition str_int :: "int \<Rightarrow> string" where
  "str_int i = (if i < 0 then CHR ''-'' # str_nat (nat (- i)) else str_nat (nat i))"

text \<open>Reading a decimal numeral back; used only to show that \<open>str_nat\<close> is injective.\<close>

definition digit_val :: "char \<Rightarrow> nat" where
  "digit_val c = of_char c - 48"

definition nat_of_digits :: "string \<Rightarrow> nat" where
  "nat_of_digits s = foldl (\<lambda>a c. 10 * a + digit_val c) 0 s"

subsection \<open>The plugin object\<close>

text \<open>
  The attributes of \<^verbatim>\<open>self\<close>. \<open>num_gpus_per_model\<close> and \<open>optimizers_map\<close>
  (\<^verbatim>\<open>self._optimizers_map\<close>) do not exist until \<^verbatim>\<open>init_model_parallel_groups\<close> and
  \<^verbatim>\<open>on_after_setup_optimizers\<close> create them: \<open>None\<close> is the missing attribute.
  \<^verbatim>\<open>_optimizers_map\<close> is a dict; it is an association list here, in insertion order,
  and \<open>AList.update\<close> is the dict's item assignment.
\<close>

record plugin =
  balance :: "int list option"
  num_partitions :: "nat option"
  microbatches :: int
  checkpoint :: string
  balance_mode :: string
  pipelined_backward :: "bool option"
  main_rpc_process :: bool
  num_gpus_per_model :: "nat option"
  optimizers_map :: "(nat \<times> bool) list option"

text \<open>
  \<^verbatim>\<open>PipeRPCPlugin.__init__\<close> (lines 29-52). \<^verbatim>\<open>super().__init__(**kwargs)\<close> belongs to
  the base plugin and is left out. A missing balance raises before any other attribute
  is set.
\<close>

definition PipeRPCPlugin_init ::
  "int list option \<Rightarrow> nat option \<Rightarrow> int \<Rightarrow> string \<Rightarrow> string \<Rightarrow> bool option \<Rightarrow> error + plugin" where
  "PipeRPCPlugin_init balance_arg num_partitions_arg microbatches_arg checkpoint_arg
       balance_mode_arg pipelined_backward_arg =
     (if balance_arg = None then
        Inl (MisconfigurationException
          (''Please, provide a balance for your model. '' @
           ''Example: nn.Sequential(torch.nn.Linear(32, 32), nn.ReLU(), nn.Linear(32, 2)) contains 3 layers. '' @
           ''A possible balance between 2 gpus is [2, 1]''))
      else
        Inr \<lparr> balance = balance_arg,
              num_partitions = num_partitions_arg,
              microbatches = microbatches_arg,
              checkpoint = checkpoint_arg,
              balance_mode = balance_mode_arg,
              pipelined_backward = pipelined_backward_arg,
              main_rpc_process = False,
              num_gpus_per_model = None,
              optimizers_map = None \<rparr>)"

subsection \<open>Process topology\<close>

text \<open>
  \<^verbatim>\<open>ensure_divisibility\<close> is fairscale's
  \<^verbatim>\<open>assert numerator % denominator == 0, "{} is not divisible by {}".format(...)\<close>.
  Python's \<^verbatim>\<open>%\<close> raises on a zero divisor and takes the divisor's sign otherwise, as
  \<open>mod\<close> on \<open>int\<close> does.
\<close>

definition ensure_divisibility :: "int \<Rightarrow> int \<Rightarrow> error + unit" where
  "ensure_divisibility numerator denominator =
     (if denominator = 0 then Inl ZeroDivisionError
      else if numerator mod denominator = 0 then Inr ()
      else Inl (AssertionError
                 (str_int numerator @ '' is not divisible by '' @ str_int denominator)))"

text \<open>
  The one call into fairscale's \<^verbatim>\<open>mpu\<close> that sets up the groups, with the two positional
  arguments it receives. The first is the result of Python's true division \<^verbatim>\<open>/\<close> of two
  ints, a float; it is kept here as the exact quotient.
\<close>

datatype mpu_call = initialize_model_parallel rat int

text \<open>\<^verbatim>\<open>PipeRPCPlugin.init_model_parallel_groups\<close> (lines 139-143).\<close>

definition init_model_parallel_groups :: "plugin \<Rightarrow> int \<Rightarrow> (error + mpu_call) \<times> plugin" where
  "init_model_parallel_groups self world_size =
     (case balance self of
        None \<Rightarrow> (Inl (TypeError ''object of type NoneType has no len()''), self)
      | Some b \<Rightarrow>
          (let self1 = self\<lparr>num_gpus_per_model := Some (length b)\<rparr> in
           case ensure_divisibility world_size (int (length b)) of
             Inl e \<Rightarrow> (Inl e, self1)
           | Inr _ \<Rightarrow>
               if world_size = 0 then (Inl ZeroDivisionError, self1)
               else
                 (let num_model_parallel = rat_of_int (int (length b)) / rat_of_int world_size
                  in (Inr (initialize_model_parallel num_model_parallel world_size), self1))))"

text \<open>\<^verbatim>\<open>PipeRPCPlugin.set_main_rpc_process\<close> (lines 152-155) and the property
  \<^verbatim>\<open>is_main_rpc_process\<close> (lines 210-212).\<close>

definition set_main_rpc_process :: "plugin \<Rightarrow> int \<Rightarrow> plugin" where
  "set_main_rpc_process self global_rank = self\<lparr>main_rpc_process := (global_rank \<noteq> 0)\<rparr>"

definition is_main_rpc_process :: "plugin \<Rightarrow> bool" where
  "is_main_rpc_process self = main_rpc_process self"

subsection \<open>Modules, the user's model and balance resolution\<close>

text \<open>
  A module container is known by its named children, in order; \<open>'l\<close> is a layer together
  with its parameter values. \<^verbatim>\<open>model.layers\<close> holds either a plain \<^verbatim>\<open>nn.Sequential\<close> or,
  after the wrap, a \<^verbatim>\<open>LightningPipeModule\<close> (lines 215-270) built from the sequential
  module, the balance, the microbatch count and the checkpoint policy.
\<close>

type_synonym 'l named_children = "(string \<times> 'l) list"

datatype 'l module_obj =
    Sequential "'l named_children"
  | LightningPipeModule "'l named_children" "int list" int string

text \<open>
  The attributes of the user's \<^verbatim>\<open>LightningModule\<close> that the plugin reads or sets:
  \<open>layers = None\<close> is a missing attribute, \<open>has_foreach_worker\<close> is
  \<^verbatim>\<open>hasattr(model, "foreach_worker")\<close>, and \<open>'t\<close> is the type of tensors.
\<close>

record ('l, 't) lightning_module =
  layers :: "'l module_obj option"
  example_input_array :: "'t option"
  has_foreach_worker :: bool

text \<open>\<^verbatim>\<open>len(model.layers)\<close>: a sequential container has a length, the pipe wrapper
  (a bare \<^verbatim>\<open>nn.Module\<close>) has none.\<close>

definition len_layers :: "('l, 't) lightning_module \<Rightarrow> error + nat" where
  "len_layers model =
     (case layers model of
        None \<Rightarrow> Inl (AttributeError ''layers'')
      | Some (Sequential cs) \<Rightarrow> Inr (length cs)
      | Some (LightningPipeModule _ _ _ _) \<Rightarrow>
          Inl (TypeError ''object of type LightningPipeModule has no len()''))"

text \<open>\<^verbatim>\<open>PipeRPCPlugin._assert_valid_model_balance\<close> (lines 123-127); \<open>model\<close> is
  \<^verbatim>\<open>trainer.get_model()\<close>.\<close>

definition assert_valid_model_balance :: "plugin \<Rightarrow> ('l, 't) lightning_module \<Rightarrow> error + unit" where
  "assert_valid_model_balance self model =
     (case balance self of
        None \<Rightarrow> Inl (TypeError ''NoneType object is not iterable'')
      | Some b \<Rightarrow>
          (case len_layers model of
             Inl e \<Rightarrow> Inl e
           | Inr n \<Rightarrow>
               if sum_list b \<noteq> int n then
                 Inl (MisconfigurationException
                   (''The provided balance sum: '' @ str_int (sum_list b) @
                    '' doesn t match your Sequential length: '' @ str_int (int n)))
               else Inr ()))"

text \<open>\<^verbatim>\<open>PipeRPCPlugin._check_sequential_model_exists\<close> (lines 94-99).\<close>

definition check_sequential_model_exists :: "('l, 't) lightning_module \<Rightarrow> error + unit" where
  "check_sequential_model_exists model =
     (case layers model of
        Some (Sequential _) \<Rightarrow> Inr ()
      | _ \<Rightarrow> Inl (MisconfigurationException
                 (''Could not find a PipeLightningModule within the model. '' @
                  ''Did you defined set your sequential model as an `layers` attribute of your model ?'')))"

text \<open>
  \<^verbatim>\<open>PipeRPCPlugin._infer_model_balance\<close> (lines 84-92). \<open>device_count\<close> is
  \<^verbatim>\<open>torch.cuda.device_count()\<close> and \<open>pipe_balance\<close> is fairscale's module of balancing
  functions, looked up by name with \<^verbatim>\<open>getattr\<close>; both are parameters. The
  \<^verbatim>\<open>log.info\<close> call is left out.
\<close>

definition infer_model_balance ::
  "nat \<Rightarrow> (string \<Rightarrow> (nat \<Rightarrow> 'l module_obj \<Rightarrow> 't \<Rightarrow> int list) option) \<Rightarrow>
   plugin \<Rightarrow> ('l, 't) lightning_module \<Rightarrow> error + int list" where
  "infer_model_balance device_count pipe_balance self model =
     (let partitions = (case num_partitions self of None \<Rightarrow> device_count | Some n \<Rightarrow> n) in
      case example_input_array model of
        None \<Rightarrow>
          Inl (MisconfigurationException
            ''Please set example_input_array to your model, so we can infer the right model balance for you'')
      | Some x \<Rightarrow>
          (case pipe_balance (balance_mode self) of
             None \<Rightarrow> Inl (AttributeError (balance_mode self))
           | Some balance_func \<Rightarrow>
               (case layers model of
                  None \<Rightarrow> Inl (AttributeError ''layers'')
                | Some ls \<Rightarrow> Inr (balance_func partitions ls x))))"

text \<open>
  \<^verbatim>\<open>PipeRPCPlugin._find_pipe_module\<close> (lines 101-121): the wrap. The delegate attributes
  \<^verbatim>\<open>final_stage\<close> and \<^verbatim>\<open>foreach_worker\<close> appear on the model; the attributes copied
  into the engine's own model object are not represented.
\<close>

definition find_pipe_module ::
  "plugin \<Rightarrow> ('l, 't) lightning_module \<Rightarrow> (error + unit) \<times> ('l, 't) lightning_module" where
  "find_pipe_module self model =
     (case layers model of
        Some (Sequential cs) \<Rightarrow>
          (case balance self of
             None \<Rightarrow> (Inl (TypeError ''balance is None''), model)
           | Some b \<Rightarrow>
               (Inr (),
                model\<lparr>layers := Some (LightningPipeModule cs b (microbatches self) (checkpoint self)),
                      has_foreach_worker := True\<rparr>))
      | _ \<Rightarrow>
          (Inl (MisconfigurationException
                 (''Could not find a PipeLightningModule within the model. '' @
                  ''Did you defined set your sequential model as an `layers` attribute of your model ?'')),
           model))"

subsection \<open>Workers, shard files and the broadcast primitive\<close>

text \<open>
  An optimizer as the plugin sees it: its index (\<^verbatim>\<open>_optimizer_idx\<close>), the closure
  attached to it if any (\<^verbatim>\<open>_closure\<close>), and the closures its \<^verbatim>\<open>step\<close> has been called
  with so far, oldest first.
\<close>

datatype closure = do_nothing_optimizer_closure | user_closure nat

record optimizer =
  optimizer_idx :: nat
  closure_attr :: "closure option"
  step_calls :: "closure list"

definition step :: "optimizer \<Rightarrow> closure \<Rightarrow> optimizer" where
  "step opt c = opt\<lparr>step_calls := step_calls opt @ [c]\<rparr>"

text \<open>
  One process of the model-parallel group: its global rank
  (\<^verbatim>\<open>torch_distrib.get_rank()\<close>), the optimizers of its local trainer
  (\<^verbatim>\<open>model.trainer.optimizers\<close>) and the children of its local partial model
  (\<^verbatim>\<open>model.children()\<close>), each child given by its own named children.
\<close>

record 'l worker =
  rank :: nat
  trainer_optimizers :: "optimizer list"
  children :: "'l named_children list"

text \<open>A file of the working directory holds a pickled module or bytes that do not
  unpickle.\<close>

datatype 'l file_content = Pickled "'l named_children" | Corrupt

type_synonym 'l fs = "string \<Rightarrow> 'l file_content option"

record 'l world =
  owner :: "'l worker"
  others :: "'l worker list"
  files :: "'l fs"

type_synonym 'l callback = "'l worker \<Rightarrow> 'l fs \<Rightarrow> (error + unit) \<times> 'l worker \<times> 'l fs"

text \<open>
  Modelled from the spec: \<^verbatim>\<open>foreach_worker\<close> is fairscale's, not part of this file.
  It runs the callback once on every other shard-holder of the replica, waits for all of
  them and surfaces the first failure; with \<^verbatim>\<open>include_self\<close> it then runs the callback
  on the calling process as well.
\<close>

fun run_remote :: "'l callback \<Rightarrow> 'l worker list \<Rightarrow> 'l fs \<Rightarrow> error option \<times> 'l worker list \<times> 'l fs" where
  "run_remote fn [] fs = (None, [], fs)"
| "run_remote fn (w # ws) fs =
     (case fn w fs of
        (r, w', fs') \<Rightarrow>
          (case run_remote fn ws fs' of
             (e, ws', fs'') \<Rightarrow>
               ((case r of Inl e1 \<Rightarrow> Some e1 | Inr _ \<Rightarrow> e), w' # ws', fs'')))"

definition foreach_worker :: "'l callback \<Rightarrow> bool \<Rightarrow> 'l world \<Rightarrow> (error + unit) \<times> 'l world" where
  "foreach_worker fn include_self wld =
     (case run_remote fn (others wld) (files wld) of
        (Some e, ws, fs) \<Rightarrow> (Inl e, wld\<lparr>others := ws, files := fs\<rparr>)
      | (None, ws, fs) \<Rightarrow>
          if include_self then
            (case fn (owner wld) fs of
               (r, o', fs') \<Rightarrow> (r, wld\<lparr>owner := o', others := ws, files := fs'\<rparr>))
          else (Inr (), wld\<lparr>others := ws, files := fs\<rparr>))"

subsection \<open>Optimizer coordination\<close>

text \<open>\<^verbatim>\<open>PipeRPCPlugin.on_after_setup_optimizers\<close> (lines 174-175): one toggle per
  optimizer of the trainer, all \<^verbatim>\<open>False\<close>.\<close>

definition on_after_setup_optimizers :: "plugin \<Rightarrow> optimizer list \<Rightarrow> plugin" where
  "on_after_setup_optimizers self trainer_opts =
     self\<lparr>optimizers_map := Some (map (\<lambda>opt_idx. (opt_idx, False)) [0..<length trainer_opts])\<rparr>"

text \<open>
  \<^verbatim>\<open>run_optimizer\<close> (lines 285-290), the callback a worker runs on a broadcast step;
  \<open>opt_idx\<close> is \<^verbatim>\<open>ctx["opt_idx"]\<close>. \<^verbatim>\<open>getattr(optimizer, "_closure", ...)\<close> falls back to
  \<^verbatim>\<open>do_nothing_optimizer_closure\<close>.
\<close>

definition run_optimizer :: "nat \<Rightarrow> 'l callback" where
  "run_optimizer opt_idx w fs =
     (if opt_idx < length (trainer_optimizers w) then
        (let opt = trainer_optimizers w ! opt_idx;
             c = (case closure_attr opt of None \<Rightarrow> do_nothing_optimizer_closure | Some c' \<Rightarrow> c')
         in (Inr (), w\<lparr>trainer_optimizers := (trainer_optimizers w)[opt_idx := step opt c]\<rparr>, fs))
      else (Inl IndexError, w, fs))"

text \<open>\<^verbatim>\<open>PipeRPCPlugin._optimizer_step\<close> (lines 193-194): the broadcast, without the
  caller.\<close>

definition optimizer_step_broadcast :: "nat \<Rightarrow> 'l world \<Rightarrow> (error + unit) \<times> 'l world" where
  "optimizer_step_broadcast opt_idx wld = foreach_worker (run_optimizer opt_idx) False wld"

text \<open>
  \<^verbatim>\<open>PipeRPCPlugin.optimizer_step\<close> (lines 196-204). The optimizer passed in is returned
  with the step it may have taken, beside the plugin and the worker group.
\<close>

definition optimizer_step ::
  "plugin \<Rightarrow> bool \<Rightarrow> 'l world \<Rightarrow> optimizer \<Rightarrow> closure \<Rightarrow>
   (error + bool) \<times> plugin \<times> optimizer \<times> 'l world" where
  "optimizer_step self is_master_rpc_process wld opt c =
     (let opt_idx = optimizer_idx opt in
      case optimizers_map self of
        None \<Rightarrow> (Inl (AttributeError ''_optimizers_map''), self, opt, wld)
      | Some m \<Rightarrow>
          (case map_of m opt_idx of
             None \<Rightarrow> (Inl (KeyError (str_nat opt_idx)), self, opt, wld)
           | Some b \<Rightarrow>
               (let self1 = self\<lparr>optimizers_map := Some (AList.update opt_idx (\<not> b) m)\<rparr> in
                if \<not> b then
                  (let opt1 = step opt c in
                   case optimizer_step_broadcast opt_idx wld of
                     (Inl e, wld1) \<Rightarrow> (Inl e, self1, opt1, wld1)
                   | (Inr _, wld1) \<Rightarrow> (Inr True, self1, opt1, wld1))
                else (Inr False, self1, opt, wld))))"

subsection \<open>Distributed checkpointing\<close>

text \<open>The shard file of a rank, \<^verbatim>\<open>f"seq_{rank}.pt"\<close>.\<close>

definition seq_file :: "nat \<Rightarrow> string" where
  "seq_file r = ''seq_'' @ str_nat r @ ''.pt''"

text \<open>
  \<^verbatim>\<open>save\<close> (lines 293-298); \<open>n\<close> is \<^verbatim>\<open>ctx["num_gpus_per_model"]\<close>.
  \<^verbatim>\<open>list(model.children())[0]\<close> raises on a model without children; \<^verbatim>\<open>torch.save\<close>
  creates or overwrites the file.
\<close>

definition save :: "nat \<Rightarrow> 'l callback" where
  "save n w fs =
     (if rank w < n then
        (case children w of
           [] \<Rightarrow> (Inl IndexError, w, fs)
         | seq # _ \<Rightarrow> (Inr (), w, fs(seq_file (rank w) \<mapsto> Pickled seq)))
      else (Inr (), w, fs))"

text \<open>\<^verbatim>\<open>torch.load\<close> and \<^verbatim>\<open>os.remove\<close> on one file.\<close>

definition torch_load :: "string \<Rightarrow> 'l fs \<Rightarrow> error + 'l named_children" where
  "torch_load name fs =
     (case fs name of
        None \<Rightarrow> Inl (FileNotFoundError name)
      | Some Corrupt \<Rightarrow> Inl (UnpicklingError name)
      | Some (Pickled seq) \<Rightarrow> Inr seq)"

definition os_remove :: "string \<Rightarrow> 'l fs \<Rightarrow> (error + unit) \<times> 'l fs" where
  "os_remove name fs =
     (case fs name of
        None \<Rightarrow> (Inl (FileNotFoundError name), fs)
      | Some _ \<Rightarrow> (Inr (), fs(name := None)))"

text \<open>The two list comprehensions of \<^verbatim>\<open>reload_sequential\<close>: each stops at the first
  element that raises.\<close>

fun load_shards :: "nat list \<Rightarrow> 'l fs \<Rightarrow> error + 'l named_children list" where
  "load_shards [] fs = Inr []"
| "load_shards (r # rs) fs =
     (case torch_load (seq_file r) fs of
        Inl e \<Rightarrow> Inl e
      | Inr seq \<Rightarrow>
          (case load_shards rs fs of
             Inl e \<Rightarrow> Inl e
           | Inr seqs \<Rightarrow> Inr (seq # seqs)))"

fun remove_shards :: "nat list \<Rightarrow> 'l fs \<Rightarrow> (error + unit) \<times> 'l fs" where
  "remove_shards [] fs = (Inr (), fs)"
| "remove_shards (r # rs) fs =
     (case os_remove (seq_file r) fs of
        (Inl e, fs') \<Rightarrow> (Inl e, fs')
      | (Inr _, fs') \<Rightarrow> remove_shards rs fs')"

text \<open>
  \<^verbatim>\<open>seq.add_module(name, child)\<close>: the children of a module are an ordered dict, so a
  new name is appended and a name already present keeps its place and gets the new
  child. The nested loops of lines 304-306 add every child of every shard in turn.
\<close>

definition add_module :: "string \<Rightarrow> 'l \<Rightarrow> 'l named_children \<Rightarrow> 'l named_children" where
  "add_module name child seq = AList.update name child seq"

definition add_children :: "'l named_children \<Rightarrow> 'l named_children \<Rightarrow> 'l named_children" where
  "add_children p_seq seq = fold (\<lambda>(name, child) s. add_module name child s) p_seq seq"

definition concat_shards :: "'l named_children list \<Rightarrow> 'l named_children" where
  "concat_shards partial_seqs = fold add_children partial_seqs []"

text \<open>\<^verbatim>\<open>reload_sequential\<close> (lines 301-309).\<close>

definition reload_sequential :: "nat \<Rightarrow> 'l fs \<Rightarrow> (error + 'l named_children) \<times> 'l fs" where
  "reload_sequential n fs =
     (case load_shards [0..<n] fs of
        Inl e \<Rightarrow> (Inl e, fs)
      | Inr partial_seqs \<Rightarrow>
          (let seq = concat_shards partial_seqs in
           case remove_shards [0..<n] fs of
             (Inl e, fs') \<Rightarrow> (Inl e, fs')
           | (Inr _, fs') \<Rightarrow> (Inr seq, fs')))"

text \<open>
  What \<^verbatim>\<open>rpc_save_model\<close> can change: the module being saved (\<^verbatim>\<open>pl_module\<close>), the
  worker group with its working directory, and whatever the caller's \<^verbatim>\<open>save_model_fn\<close>
  writes to (\<open>'x\<close>, the checkpoint storage).
\<close>

record ('l, 't, 'x) save_state =
  pl_module :: "('l, 't) lightning_module"
  cluster :: "'l world"
  storage :: 'x

type_synonym ('l, 't, 'x) save_fn =
  "string \<Rightarrow> ('l, 't) lightning_module \<Rightarrow> 'x \<Rightarrow> (error + unit) \<times> ('l, 't) lightning_module \<times> 'x"

text \<open>
  \<^verbatim>\<open>PipeRPCPlugin.rpc_save_model\<close> (lines 183-191). \<open>model\<close> is
  \<^verbatim>\<open>trainer.get_model()\<close>, of which only \<^verbatim>\<open>hasattr(model, "foreach_worker")\<close> is used;
  \<^verbatim>\<open>del pl_module.layers\<close> raises when \<^verbatim>\<open>save_model_fn\<close> has removed the attribute.
\<close>

definition rpc_save_model ::
  "plugin \<Rightarrow> ('l, 't, 'x) save_fn \<Rightarrow> string \<Rightarrow> ('l, 't) lightning_module \<Rightarrow>
   ('l, 't, 'x) save_state \<Rightarrow> (error + unit) \<times> ('l, 't, 'x) save_state" where
  "rpc_save_model self save_model_fn last_filepath model st =
     (if has_foreach_worker model then
        (case layers (pl_module st) of
           None \<Rightarrow> (Inl (AttributeError ''layers''), st)
         | Some current_layers \<Rightarrow>
             (case num_gpus_per_model self of
                None \<Rightarrow> (Inl (AttributeError ''num_gpus_per_model''), st)
              | Some n \<Rightarrow>
                  (case foreach_worker (save n) True (cluster st) of
                     (Inl e, wld1) \<Rightarrow> (Inl e, st\<lparr>cluster := wld1\<rparr>)
                   | (Inr _, wld1) \<Rightarrow>
                       (case reload_sequential n (files wld1) of
                          (Inl e, fs2) \<Rightarrow> (Inl e, st\<lparr>cluster := wld1\<lparr>files := fs2\<rparr>\<rparr>)
                        | (Inr seq, fs2) \<Rightarrow>
                            (let wld2 = wld1\<lparr>files := fs2\<rparr>;
                                 pm1 = (pl_module st)\<lparr>layers := Some (Sequential seq)\<rparr>
                             in case save_model_fn last_filepath pm1 (storage st) of
                                  (Inl e, pm2, x2) \<Rightarrow>
                                    (Inl e, \<lparr>pl_module = pm2, cluster = wld2, storage = x2\<rparr>)
                                | (Inr _, pm2, x2) \<Rightarrow>
                                    (case layers pm2 of
                                       None \<Rightarrow>
                                         (Inl (AttributeError ''layers''),
                                          \<lparr>pl_module = pm2, cluster = wld2, storage = x2\<rparr>)
                                     | Some _ \<Rightarrow>
                                         (Inr (),
                                          \<lparr>pl_module = pm2\<lparr>layers := Some current_layers\<rparr>,
                                           cluster = wld2, storage = x2\<rparr>)))))))
      else (Inr (), st))"

subsection \<open>Connection setup\<close>

text \<open>
  The trainer attributes read during setup; \<open>automatic_optimization\<close> is
  \<^verbatim>\<open>trainer.train_loop.automatic_optimization\<close> and \<open>trainer_model\<close> is what
  \<^verbatim>\<open>trainer.get_model()\<close> returns.
\<close>

record ('l, 't) trainer =
  automatic_optimization :: bool
  amp_backend :: "string option"
  testing :: bool
  trainer_global_rank :: int
  trainer_model :: "('l, 't) lightning_module"

text \<open>The calls made into the distributed runtime, in order: the two initialisations of
  the base \<^verbatim>\<open>RPCPlugin\<close> with (global rank, world size), and the group set-up.\<close>

datatype runtime_call =
    base_init_distributed_connection int int
  | base_init_rpc_connection int int
  | mpu mpu_call

text \<open>\<^verbatim>\<open>PipeRPCPlugin._check_manual_optimization\<close> (lines 164-172).\<close>

definition check_manual_optimization :: "('l, 't) trainer \<Rightarrow> error + unit" where
  "check_manual_optimization trainer =
     (if automatic_optimization trainer then
        Inl (MisconfigurationException
               ''PipeRPCPlugin is currently not supported in automatic optimization'')
      else if amp_backend trainer \<noteq> None then
        Inl (MisconfigurationException
               ''PipeRPCPlugin is currently not supported in Automatic Mixed Precision'')
      else Inr ())"

text \<open>\<^verbatim>\<open>PipeRPCPlugin._skip_init_connections\<close> (lines 129-137); \<open>is_initialized\<close> is
  \<^verbatim>\<open>torch_distrib.is_initialized()\<close>.\<close>

definition skip_init_connections :: "bool \<Rightarrow> ('l, 't) trainer \<Rightarrow> bool" where
  "skip_init_connections is_initialized trainer =
     (if is_initialized \<and> testing trainer then True else False)"

text \<open>
  \<^verbatim>\<open>PipeRPCPlugin.init_distributed_connection\<close> (lines 54-82). The flag
  \<^verbatim>\<open>main_rpc_process\<close> is tested before \<^verbatim>\<open>set_main_rpc_process\<close> runs on the last
  line, so the test sees the value the plugin already had.
\<close>

definition init_distributed_connection ::
  "bool \<Rightarrow> nat \<Rightarrow> (string \<Rightarrow> (nat \<Rightarrow> 'l module_obj \<Rightarrow> 't \<Rightarrow> int list) option) \<Rightarrow>
   plugin \<Rightarrow> ('l, 't) trainer \<Rightarrow> int \<Rightarrow> int \<Rightarrow> (error + unit) \<times> plugin \<times> runtime_call list" where
  "init_distributed_connection is_initialized device_count pipe_balance self trainer
       global_rank world_size =
     (case check_manual_optimization trainer of
        Inl e \<Rightarrow> (Inl e, self, [])
      | Inr _ \<Rightarrow>
          if \<not> skip_init_connections is_initialized trainer then
            (let calls = [base_init_distributed_connection global_rank world_size,
                          base_init_rpc_connection global_rank world_size]
             in case init_model_parallel_groups self world_size of
                  (Inl e, self1) \<Rightarrow> (Inl e, self1, calls)
                | (Inr c, self1) \<Rightarrow>
                    (let calls1 = calls @ [mpu c] in
                     if main_rpc_process self1 then
                       (case check_sequential_model_exists (trainer_model trainer) of
                          Inl e \<Rightarrow> (Inl e, self1, calls1)
                        | Inr _ \<Rightarrow>
                            (case (if balance self1 = None then
                                     (case infer_model_balance device_count pipe_balance self1
                                             (trainer_model trainer) of
                                        Inl e \<Rightarrow> Inl e
                                      | Inr b \<Rightarrow> Inr (self1\<lparr>balance := Some b\<rparr>))
                                   else Inr self1) of
                               Inl e \<Rightarrow> (Inl e, self1, calls1)
                             | Inr self2 \<Rightarrow>
                                 (case assert_valid_model_balance self2 (trainer_model trainer) of
                                    Inl e \<Rightarrow> (Inl e, self2, calls1)
                                  | Inr _ \<Rightarrow>
                                      (Inr (),
                                       set_main_rpc_process self2 (trainer_global_rank trainer),
                                       calls1))))
                     else
                       (Inr (), set_main_rpc_process self1 (trainer_global_rank trainer), calls1)))
          else (Inr (), set_main_rpc_process self (trainer_global_rank trainer), []))"

subsection \<open>Concrete configurations used in the examples below\<close>

text \<open>A plugin as the constructor leaves it for the balance \<open>[2, 1]\<close>, and a model with
  a three-layer and a four-layer sequential module.\<close>

definition plugin_2_1 :: plugin where
  "plugin_2_1 =
     \<lparr> balance = Some [2, 1], num_partitions = None, microbatches = 8,
       checkpoint = ''except_last'', balance_mode = ''balance_by_size'',
       pipelined_backward = Some True, main_rpc_process = False,
       num_gpus_per_model = None, optimizers_map = None \<rparr>"

definition model_of_layers :: "nat named_children \<Rightarrow> (nat, nat) lightning_module" where
  "model_of_layers cs =
     \<lparr> layers = Some (Sequential cs), example_input_array = None, has_foreach_worker = False \<rparr>"

definition three_layers :: "nat named_children" where
  "three_layers = [(''0'', 10), (''1'', 11), (''2'', 12)]"

definition four_layers :: "nat named_children" where
  "four_layers = [(''0'', 10), (''1'', 11), (''2'', 12), (''3'', 13)]"

text \<open>
  A replica on two processes. Rank 0, the caller, holds the first two layers and rank 1
  the third; each has one optimizer, and only the one on rank 1 has a closure attached.
  The working directory starts empty.
\<close>

definition optimizer_0 :: optimizer where
  "optimizer_0 = \<lparr> optimizer_idx = 0, closure_attr = None, step_calls = [] \<rparr>"

definition worker_0 :: "nat worker" where
  "worker_0 = \<lparr> rank = 0, trainer_optimizers = [optimizer_0],
                 children = [[(''0'', 10), (''1'', 11)]] \<rparr>"

definition worker_1 :: "nat worker" where
  "worker_1 = \<lparr> rank = 1,
                 trainer_optimizers = [optimizer_0\<lparr>closure_attr := Some (user_closure 7)\<rparr>],
                 children = [[(''2'', 12)]] \<rparr>"

definition world_2 :: "nat world" where
  "world_2 = \<lparr> owner = worker_0, others = [worker_1], files = Map.empty \<rparr>"

text \<open>
  The same replica while training: the model's layers are the pipe wrapper around the
  three layers, and \<open>write_checkpoint\<close> is a \<^verbatim>\<open>save_model_fn\<close> that appends the path and
  the layers it is given to the storage.
\<close>

definition pipe_layers :: "nat module_obj" where
  "pipe_layers = LightningPipeModule three_layers [2, 1] 8 ''except_last''"

definition pipelined_model :: "(nat, nat) lightning_module" where
  "pipelined_model =
     \<lparr> layers = Some pipe_layers, example_input_array = None, has_foreach_worker = True \<rparr>"

definition write_checkpoint :: "(nat, nat, (string \<times> nat module_obj option) list) save_fn" where
  "write_checkpoint path pm store = (Inr (), pm, store @ [(path, layers pm)])"

definition save_state_2 :: "(nat, nat, (string \<times> nat module_obj option) list) save_state" where
  "save_state_2 = \<lparr> pl_module = pipelined_model, cluster = world_2, storage = [] \<rparr>"

text \<open>A stand-in for fairscale's \<^verbatim>\<open>pipe_balance\<close> module with the one strategy
  \<open>balance_by_size\<close>, which here gives every partition one layer.\<close>

definition pipe_balance_by_size_only ::
  "string \<Rightarrow> (nat \<Rightarrow> nat module_obj \<Rightarrow> nat \<Rightarrow> int list) option" where
  "pipe_balance_by_size_only name =
     (if name = ''balance_by_size'' then Some (\<lambda>partitions ls x. replicate partitions 1)
      else None)"

section \<open>Properties\<close>

subsection \<open>Decimal formatting\<close>

lemma str_int_3: "str_int 3 = ''3''"
  by code_simp

lemma str_int_4: "str_int 4 = ''4''"
  by code_simp

subsection \<open>Process topology\<close>

text \<open>
  C1. Topology initialisation fails when the world size is not a multiple of the number
  of devices per model, and otherwise is to hand \<open>W / D\<close> replicas to the group set-up.
  The first half holds (\<open>init_model_parallel_groups_not_divisible\<close>). The second does
  not: line 142 divides the other way round. With four processes and a balance of
  length two the value passed on is \<open>2 / 4\<close>, not \<open>4 / 2\<close>.
\<close>

theorem init_model_parallel_groups_swapped_quotient:
  "fst (init_model_parallel_groups (plugin_2_1\<lparr>balance := Some [1, 1]\<rparr>) 4)
     = Inr (initialize_model_parallel (1 / 2) 4)
   \<and> (1 / 2 :: rat) \<noteq> rat_of_int (4 div 2)"
  by (simp add: init_model_parallel_groups_def ensure_divisibility_def plugin_2_1_def)

lemma init_model_parallel_groups_not_divisible:
  assumes "balance self = Some b" and "world_size mod int (length b) \<noteq> 0"
  shows "\<exists>e. fst (init_model_parallel_groups self world_size) = Inl e"
  using assms by (simp add: init_model_parallel_groups_def ensure_divisibility_def)

lemma init_model_parallel_groups_value:
  assumes "balance self = Some b" and "b \<noteq> []" and "world_size \<noteq> 0"
    and "world_size mod int (length b) = 0"
  shows "fst (init_model_parallel_groups self world_size) =
           Inr (initialize_model_parallel (rat_of_int (int (length b)) / rat_of_int world_size)
                  world_size)"
  using assms by (simp add: init_model_parallel_groups_def ensure_divisibility_def)

text \<open>
  C4. The main RPC process is to be the lowest global rank. Line 155 sets the flag to
  \<open>global_rank \<noteq> 0\<close>: it is off on rank 0 and on everywhere else.
\<close>

theorem set_main_rpc_process_rank_zero:
  "is_main_rpc_process (set_main_rpc_process plugin_2_1 0) = False
   \<and> is_main_rpc_process (set_main_rpc_process plugin_2_1 1) = True"
  by (simp add: set_main_rpc_process_def is_main_rpc_process_def)

lemma is_main_rpc_process_iff:
  "is_main_rpc_process (set_main_rpc_process self global_rank) \<longleftrightarrow> global_rank \<noteq> 0"
  by (simp add: set_main_rpc_process_def is_main_rpc_process_def)

subsection \<open>Balance validation\<close>

text \<open>
  C2. For a balance \<open>B\<close> and a sequential module of \<open>L\<close> layers, validation passes exactly
  when \<open>sum B = L\<close>; otherwise it raises the configuration error whose message holds
  the balance sum and the sequential length, both in decimal.
\<close>

theorem assert_valid_model_balance_iff:
  assumes "balance self = Some B" and "layers model = Some (Sequential cs)"
  shows "(assert_valid_model_balance self model = Inr () \<longleftrightarrow> sum_list B = int (length cs))
       \<and> (sum_list B \<noteq> int (length cs) \<longrightarrow>
            assert_valid_model_balance self model =
              Inl (MisconfigurationException
                    (''The provided balance sum: '' @ str_int (sum_list B) @
                     '' doesn t match your Sequential length: '' @ str_int (int (length cs)))))"
  using assms by (simp add: assert_valid_model_balance_def len_layers_def)

theorem assert_valid_model_balance_witness:
  "assert_valid_model_balance plugin_2_1 (model_of_layers three_layers) = Inr ()
   \<and> assert_valid_model_balance plugin_2_1 (model_of_layers four_layers) =
       Inl (MisconfigurationException
             ''The provided balance sum: 3 doesn t match your Sequential length: 4'')"
proof -
  have b: "balance plugin_2_1 = Some [2, 1]"
    by (simp add: plugin_2_1_def)
  have l3: "layers (model_of_layers three_layers) = Some (Sequential three_layers)"
    and l4: "layers (model_of_layers four_layers) = Some (Sequential four_layers)"
    by (simp_all add: model_of_layers_def)
  show ?thesis
    using assert_valid_model_balance_iff [OF b l3] assert_valid_model_balance_iff [OF b l4]
    by (simp add: three_layers_def four_layers_def str_int_3 str_int_4)
qed

subsection \<open>Saving without a pipeline\<close>

text \<open>
  C10. On a model without the \<^verbatim>\<open>foreach_worker\<close> attribute, \<^verbatim>\<open>rpc_save_model\<close> returns
  normally and changes nothing, whatever \<^verbatim>\<open>save_model_fn\<close> would do: the working
  directory, the storage that \<^verbatim>\<open>save_model_fn\<close> writes to and the module's layers are
  as before.
\<close>

theorem rpc_save_model_not_pipelined:
  "\<not> has_foreach_worker model \<Longrightarrow>
   rpc_save_model self save_model_fn last_filepath model st = (Inr (), st)"
  by (simp add: rpc_save_model_def)

subsection \<open>Optimizer coordination\<close>

lemma optimizer_idx_step: "optimizer_idx (step opt c) = optimizer_idx opt"
  by (simp add: step_def)

lemma run_remote_run_optimizer:
  assumes "\<forall>w \<in> set ws. opt_idx < length (trainer_optimizers w)"
  shows "run_remote (run_optimizer opt_idx) ws fs =
           (None,
            map (\<lambda>w. w\<lparr>trainer_optimizers :=
                        (trainer_optimizers w)[opt_idx :=
                           step (trainer_optimizers w ! opt_idx)
                             (case closure_attr (trainer_optimizers w ! opt_idx) of
                                None \<Rightarrow> do_nothing_optimizer_closure | Some c' \<Rightarrow> c')]\<rparr>) ws,
            fs)"
  using assms by (induction ws) (simp_all add: run_optimizer_def Let_def)

lemma optimizer_step_broadcast_others:
  assumes "\<forall>w \<in> set (others wld). opt_idx < length (trainer_optimizers w)"
  shows "optimizer_step_broadcast opt_idx wld =
           (Inr (),
            wld\<lparr>others :=
                  map (\<lambda>w. w\<lparr>trainer_optimizers :=
                        (trainer_optimizers w)[opt_idx :=
                           step (trainer_optimizers w ! opt_idx)
                             (case closure_attr (trainer_optimizers w ! opt_idx) of
                                None \<Rightarrow> do_nothing_optimizer_closure | Some c' \<Rightarrow> c')]\<rparr>)
                      (others wld)\<rparr>)"
  using assms
  by (simp add: optimizer_step_broadcast_def foreach_worker_def run_remote_run_optimizer)

lemma optimizer_step_run:
  assumes "optimizers_map self = Some m"
    and "map_of m (optimizer_idx opt) = Some False"
    and "\<forall>w \<in> set (others wld). optimizer_idx opt < length (trainer_optimizers w)"
  shows "optimizer_step self is_master wld opt c =
           (Inr True,
            self\<lparr>optimizers_map := Some (AList.update (optimizer_idx opt) True m)\<rparr>,
            step opt c,
            snd (optimizer_step_broadcast (optimizer_idx opt) wld))"
  using assms by (simp add: optimizer_step_def Let_def optimizer_step_broadcast_others)

lemma optimizer_step_skip:
  assumes "optimizers_map self = Some m"
    and "map_of m (optimizer_idx opt) = Some True"
  shows "optimizer_step self is_master wld opt c =
           (Inr False,
            self\<lparr>optimizers_map := Some (AList.update (optimizer_idx opt) False m)\<rparr>,
            opt, wld)"
  using assms by (simp add: optimizer_step_def Let_def)

text \<open>
  C6. When the flipped toggle is false (it was true), nothing steps and the call returns
  false: the optimizer and the worker group are as before. When the flipped toggle is
  true, the optimizer passed in takes one step with the caller's closure, and the
  broadcast (without the caller: its own worker record is as before) makes every other
  worker step its optimizer at that index once, with the closure attached to that
  optimizer, or with \<open>do_nothing_optimizer_closure\<close> when none is attached.
\<close>

theorem optimizer_step_cases:
  assumes "optimizers_map self = Some m"
    and "map_of m (optimizer_idx opt) = Some b"
    and "\<forall>w \<in> set (others wld). optimizer_idx opt < length (trainer_optimizers w)"
  shows "optimizer_step self is_master wld opt c =
           (if \<not> b then
              (Inr True,
               self\<lparr>optimizers_map := Some (AList.update (optimizer_idx opt) True m)\<rparr>,
               step opt c,
               wld\<lparr>others :=
                  map (\<lambda>w. w\<lparr>trainer_optimizers :=
                        (trainer_optimizers w)[optimizer_idx opt :=
                           step (trainer_optimizers w ! optimizer_idx opt)
                             (case closure_attr (trainer_optimizers w ! optimizer_idx opt) of
                                None \<Rightarrow> do_nothing_optimizer_closure | Some c' \<Rightarrow> c')]\<rparr>)
                      (others wld)\<rparr>)
            else
              (Inr False,
               self\<lparr>optimizers_map := Some (AList.update (optimizer_idx opt) False m)\<rparr>,
               opt, wld))"
  using assms by (simp add: optimizer_step_def Let_def optimizer_step_broadcast_others)

theorem optimizer_step_cases_witness:
  "optimizer_step (plugin_2_1\<lparr>optimizers_map := Some [(0, False)]\<rparr>) True world_2
       optimizer_0 (user_closure 3) =
     (Inr True,
      plugin_2_1\<lparr>optimizers_map := Some [(0, True)]\<rparr>,
      optimizer_0\<lparr>step_calls := [user_closure 3]\<rparr>,
      world_2\<lparr>others :=
        [worker_1\<lparr>trainer_optimizers :=
           [optimizer_0\<lparr>closure_attr := Some (user_closure 7),
                        step_calls := [user_closure 7]\<rparr>]\<rparr>]\<rparr>)
   \<and> optimizer_step (plugin_2_1\<lparr>optimizers_map := Some [(0, True)]\<rparr>) True world_2
         optimizer_0 (user_closure 3) =
     (Inr False, plugin_2_1\<lparr>optimizers_map := Some [(0, False)]\<rparr>, optimizer_0, world_2)
   \<and> optimizer_step (plugin_2_1\<lparr>optimizers_map := Some [(0, False)]\<rparr>) True
         (world_2\<lparr>others := [worker_0]\<rparr>) optimizer_0 (user_closure 3) =
     (Inr True,
      plugin_2_1\<lparr>optimizers_map := Some [(0, True)]\<rparr>,
      optimizer_0\<lparr>step_calls := [user_closure 3]\<rparr>,
      world_2\<lparr>others :=
        [worker_0\<lparr>trainer_optimizers :=
           [optimizer_0\<lparr>step_calls := [do_nothing_optimizer_closure]\<rparr>]\<rparr>]\<rparr>)"
proof -
  have idx: "optimizer_idx optimizer_0 = 0"
    by (simp add: optimizer_0_def)
  have valid: "\<forall>w \<in> set (others world_2). optimizer_idx optimizer_0 < length (trainer_optimizers w)"
    by (simp add: world_2_def worker_1_def optimizer_0_def)
  have m0: "optimizers_map (plugin_2_1\<lparr>optimizers_map := Some [(0, False)]\<rparr>) = Some [(0, False)]"
    and m1: "optimizers_map (plugin_2_1\<lparr>optimizers_map := Some [(0, True)]\<rparr>) = Some [(0, True)]"
    by simp_all
  have valid': "\<forall>w \<in> set (others (world_2\<lparr>others := [worker_0]\<rparr>)).
      optimizer_idx optimizer_0 < length (trainer_optimizers w)"
    by (simp add: worker_0_def optimizer_0_def)
  have l0: "map_of [(0::nat, False)] (optimizer_idx optimizer_0) = Some False"
    and l1: "map_of [(0::nat, True)] (optimizer_idx optimizer_0) = Some True"
    by (simp_all add: idx)
  show ?thesis
    using optimizer_step_cases [OF m0 l0 valid, of True "user_closure 3"]
      optimizer_step_cases [OF m1 l1 valid, of True "user_closure 3"]
      optimizer_step_cases [OF m0 l0 valid', of True "user_closure 3"]
    by (simp add: idx step_def world_2_def worker_0_def worker_1_def optimizer_0_def)
qed

text \<open>
  C3. Two consecutive \<^verbatim>\<open>optimizer_step\<close> calls on an index whose toggle is false. As
  stated (first call returns false, second returns true) the claim fails: on the
  two-process replica, right after \<^verbatim>\<open>on_after_setup_optimizers\<close>, the first call
  returns true, and the second call, made on the state the first one left, returns
  false.
\<close>

theorem optimizer_step_first_call_steps:
  "optimizer_step (on_after_setup_optimizers plugin_2_1 [optimizer_0]) True world_2
       optimizer_0 (user_closure 3) =
     (Inr True,
      plugin_2_1\<lparr>optimizers_map := Some [(0, True)]\<rparr>,
      optimizer_0\<lparr>step_calls := [user_closure 3]\<rparr>,
      world_2\<lparr>others :=
        [worker_1\<lparr>trainer_optimizers :=
           [optimizer_0\<lparr>closure_attr := Some (user_closure 7),
                        step_calls := [user_closure 7]\<rparr>]\<rparr>]\<rparr>)
   \<and> fst (optimizer_step
            (plugin_2_1\<lparr>optimizers_map := Some [(0, True)]\<rparr>) True
            (world_2\<lparr>others :=
               [worker_1\<lparr>trainer_optimizers :=
                  [optimizer_0\<lparr>closure_attr := Some (user_closure 7),
                               step_calls := [user_closure 7]\<rparr>]\<rparr>]\<rparr>)
            (optimizer_0\<lparr>step_calls := [user_closure 3]\<rparr>) (user_closure 4)) =
       Inr False"
  by (simp add: optimizer_step_def on_after_setup_optimizers_def optimizer_step_broadcast_def
      foreach_worker_def run_optimizer_def step_def Let_def
      plugin_2_1_def world_2_def worker_1_def optimizer_0_def)

text \<open>
  C3, amended. Starting from a false toggle, the first call performs the step (caller
  and broadcast) and returns true; the second performs none and returns false: one step
  in all, taken with the first call's closure, and the toggle is false again.
\<close>

theorem optimizer_step_twice:
  assumes "optimizers_map self = Some m"
    and "map_of m (optimizer_idx opt) = Some False"
    and "\<forall>w \<in> set (others wld). optimizer_idx opt < length (trainer_optimizers w)"
  shows "\<exists>self1 wld1 self2 m2.
           optimizer_step self is_master wld opt c1 = (Inr True, self1, step opt c1, wld1)
         \<and> optimizer_step self1 is_master wld1 (step opt c1) c2 =
             (Inr False, self2, step opt c1, wld1)
         \<and> wld1 = snd (optimizer_step_broadcast (optimizer_idx opt) wld)
         \<and> optimizers_map self2 = Some m2
         \<and> map_of m2 (optimizer_idx opt) = Some False"
proof -
  let ?i = "optimizer_idx opt"
  let ?self1 = "self\<lparr>optimizers_map := Some (AList.update ?i True m)\<rparr>"
  let ?wld1 = "snd (optimizer_step_broadcast ?i wld)"
  let ?m2 = "AList.update ?i False (AList.update ?i True m)"
  have first: "optimizer_step self is_master wld opt c1 = (Inr True, ?self1, step opt c1, ?wld1)"
    by (rule optimizer_step_run [OF assms])
  have m1: "optimizers_map ?self1 = Some (AList.update ?i True m)"
    by simp
  have l1: "map_of (AList.update ?i True m) (optimizer_idx (step opt c1)) = Some True"
    by (simp add: optimizer_idx_step update_conv')
  have second: "optimizer_step ?self1 is_master ?wld1 (step opt c1) c2 =
      (Inr False, ?self1\<lparr>optimizers_map := Some ?m2\<rparr>, step opt c1, ?wld1)"
    using optimizer_step_skip [OF m1 l1] by (simp add: optimizer_idx_step)
  have l2: "map_of ?m2 ?i = Some False"
    by (simp add: update_conv')
  show ?thesis
    using first second l2 by auto
qed

theorem optimizer_step_twice_witness:
  "\<exists>self1 wld1 self2 m2.
     optimizer_step (on_after_setup_optimizers plugin_2_1 [optimizer_0]) True world_2
         optimizer_0 (user_closure 3) =
       (Inr True, self1, optimizer_0\<lparr>step_calls := [user_closure 3]\<rparr>, wld1)
   \<and> optimizer_step self1 True wld1 (optimizer_0\<lparr>step_calls := [user_closure 3]\<rparr>)
         (user_closure 4) =
       (Inr False, self2, optimizer_0\<lparr>step_calls := [user_closure 3]\<rparr>, wld1)
   \<and> optimizers_map self2 = Some m2 \<and> map_of m2 0 = Some False"
proof -
  have idx: "optimizer_idx optimizer_0 = 0"
    by (simp add: optimizer_0_def)
  have m0: "optimizers_map (on_after_setup_optimizers plugin_2_1 [optimizer_0]) = Some [(0, False)]"
    by (simp add: on_after_setup_optimizers_def)
  have l0: "map_of [(0::nat, False)] (optimizer_idx optimizer_0) = Some False"
    by (simp add: idx)
  have valid: "\<forall>w \<in> set (others world_2). optimizer_idx optimizer_0 < length (trainer_optimizers w)"
    by (simp add: world_2_def worker_1_def optimizer_0_def)
  have s: "step optimizer_0 (user_closure 3) = optimizer_0\<lparr>step_calls := [user_closure 3]\<rparr>"
    by (simp add: step_def optimizer_0_def)
  show ?thesis
    using optimizer_step_twice [OF m0 l0 valid, of True "user_closure 3" "user_closure 4"]
    unfolding s idx by blast
qed

subsection \<open>Shard file names\<close>

lemma digit_val_digit_char: "d < 10 \<Longrightarrow> digit_val (digit_char d) = d"
  by (simp add: digit_val_def digit_char_def)

lemma nat_of_digits_snoc: "nat_of_digits (s @ [c]) = 10 * nat_of_digits s + digit_val c"
  by (simp add: nat_of_digits_def)

lemma nat_of_digits_str_nat: "nat_of_digits (str_nat n) = n"
proof (induction n rule: str_nat.induct)
  case (1 n)
  show ?case
  proof (cases "n < 10")
    case True
    then have "str_nat n = [digit_char n]"
      by (subst str_nat.simps) simp
    with True show ?thesis
      by (simp add: nat_of_digits_def digit_val_digit_char)
  next
    case False
    then have "str_nat n = str_nat (n div 10) @ [digit_char (n mod 10)]"
      by (subst str_nat.simps) simp
    with False "1.IH" show ?thesis
      by (simp add: nat_of_digits_snoc digit_val_digit_char)
  qed
qed

lemma str_nat_inject: "str_nat a = str_nat b \<longleftrightarrow> a = b"
  by (metis nat_of_digits_str_nat)

lemma seq_file_inject [simp]: "seq_file a = seq_file b \<longleftrightarrow> a = b"
  by (simp add: seq_file_def str_nat_inject)

lemma digit_char_0: "digit_char 0 = CHR ''0''"
  by code_simp

lemma digit_char_1: "digit_char (Suc 0) = CHR ''1''"
  by code_simp

lemma seq_file_0: "seq_file 0 = ''seq_0.pt''"
  by (simp add: seq_file_def str_nat.simps [of 0] digit_char_0)

lemma seq_file_1: "seq_file 1 = ''seq_1.pt''"
  by (simp add: seq_file_def str_nat.simps [of "Suc 0"] digit_char_1)

subsection \<open>Writing the shards\<close>

lemma save_step:
  assumes "rank w < n \<longrightarrow> children w \<noteq> []"
  shows "\<exists>fs1. save n w fs = (Inr (), w, fs1)
           \<and> (rank w < n \<longrightarrow> fs1 (seq_file (rank w)) = Some (Pickled (hd (children w))))
           \<and> (\<forall>name. name \<noteq> seq_file (rank w) \<longrightarrow> fs1 name = fs name)"
proof (cases "rank w < n")
  case True
  with assms obtain seq rest where "children w = seq # rest"
    by (cases "children w") auto
  with True show ?thesis
    by (simp add: save_def)
next
  case False
  then show ?thesis
    by (simp add: save_def)
qed

lemma run_remote_save:
  assumes "\<forall>w \<in> set ws. rank w < n \<longrightarrow> children w \<noteq> []"
    and "distinct (map rank ws)"
  shows "\<exists>fs'. run_remote (save n) ws fs = (None, ws, fs')
           \<and> (\<forall>w \<in> set ws. rank w < n \<longrightarrow>
                  fs' (seq_file (rank w)) = Some (Pickled (hd (children w))))
           \<and> (\<forall>name. name \<notin> seq_file ` rank ` set ws \<longrightarrow> fs' name = fs name)"
  using assms
proof (induction ws arbitrary: fs)
  case Nil
  then show ?case by simp
next
  case (Cons w ws)
  have "rank w < n \<longrightarrow> children w \<noteq> []"
    using Cons.prems(1) by simp
  from save_step [OF this, of fs] obtain fs1 where step_w: "save n w fs = (Inr (), w, fs1)"
    and fs1_w: "rank w < n \<longrightarrow> fs1 (seq_file (rank w)) = Some (Pickled (hd (children w)))"
    and fs1_other: "\<forall>name. name \<noteq> seq_file (rank w) \<longrightarrow> fs1 name = fs name"
    by blast
  from Cons.prems have "\<forall>w \<in> set ws. rank w < n \<longrightarrow> children w \<noteq> []" "distinct (map rank ws)"
    by simp_all
  from Cons.IH [OF this, of fs1] obtain fs' where
    rest: "run_remote (save n) ws fs1 = (None, ws, fs')"
    and fs'_in: "\<forall>w \<in> set ws. rank w < n \<longrightarrow>
                  fs' (seq_file (rank w)) = Some (Pickled (hd (children w)))"
    and fs'_out: "\<forall>name. name \<notin> seq_file ` rank ` set ws \<longrightarrow> fs' name = fs1 name"
    by blast
  have run: "run_remote (save n) (w # ws) fs = (None, w # ws, fs')"
    by (simp add: step_w rest)
  have "rank w \<notin> rank ` set ws"
    using Cons.prems(2) by simp
  then have "seq_file (rank w) \<notin> seq_file ` rank ` set ws"
    by auto
  then have w_kept: "fs' (seq_file (rank w)) = fs1 (seq_file (rank w))"
    using fs'_out by blast
  have a: "\<forall>v \<in> set (w # ws). rank v < n \<longrightarrow>
            fs' (seq_file (rank v)) = Some (Pickled (hd (children v)))"
    using fs'_in fs1_w w_kept by auto
  have b: "\<forall>name. name \<notin> seq_file ` rank ` set (w # ws) \<longrightarrow> fs' name = fs name"
    using fs'_out fs1_other by auto
  show ?case
    using run a b by blast
qed

lemma foreach_worker_save:
  assumes nonempty: "\<forall>w \<in> set (owner wld # others wld). rank w < n \<longrightarrow> children w \<noteq> []"
    and dist: "distinct (map rank (owner wld # others wld))"
  shows "\<exists>fs'. foreach_worker (save n) True wld = (Inr (), wld\<lparr>files := fs'\<rparr>)
           \<and> (\<forall>w \<in> set (owner wld # others wld). rank w < n \<longrightarrow>
                  fs' (seq_file (rank w)) = Some (Pickled (hd (children w))))
           \<and> (\<forall>name. name \<notin> seq_file ` rank ` set (owner wld # others wld) \<longrightarrow>
                  fs' name = files wld name)"
proof -
  from nonempty dist have "\<forall>w \<in> set (others wld). rank w < n \<longrightarrow> children w \<noteq> []"
    and "distinct (map rank (others wld))"
    by simp_all
  from run_remote_save [OF this, of "files wld"] obtain fs1 where
    remote: "run_remote (save n) (others wld) (files wld) = (None, others wld, fs1)"
    and fs1_in: "\<forall>w \<in> set (others wld). rank w < n \<longrightarrow>
                  fs1 (seq_file (rank w)) = Some (Pickled (hd (children w)))"
    and fs1_out: "\<forall>name. name \<notin> seq_file ` rank ` set (others wld) \<longrightarrow> fs1 name = files wld name"
    by blast
  have "rank (owner wld) < n \<longrightarrow> children (owner wld) \<noteq> []"
    using nonempty by simp
  from save_step [OF this, of fs1] obtain fs2
    where own: "save n (owner wld) fs1 = (Inr (), owner wld, fs2)"
    and fs2_o: "rank (owner wld) < n \<longrightarrow>
                  fs2 (seq_file (rank (owner wld))) = Some (Pickled (hd (children (owner wld))))"
    and fs2_other: "\<forall>name. name \<noteq> seq_file (rank (owner wld)) \<longrightarrow> fs2 name = fs1 name"
    by blast
  have res: "foreach_worker (save n) True wld = (Inr (), wld\<lparr>files := fs2\<rparr>)"
    by (simp add: foreach_worker_def remote own)
  have fresh: "rank (owner wld) \<notin> rank ` set (others wld)"
    using dist by simp
  have "fs2 (seq_file (rank w)) = Some (Pickled (hd (children w)))"
    if "w \<in> set (others wld)" and "rank w < n" for w
  proof -
    from that(1) have "rank w \<in> rank ` set (others wld)"
      by (rule imageI)
    with fresh have "rank w \<noteq> rank (owner wld)"
      by metis
    then have "fs2 (seq_file (rank w)) = fs1 (seq_file (rank w))"
      using fs2_other by simp
    with that fs1_in show ?thesis
      by simp
  qed
  then have a: "\<forall>w \<in> set (owner wld # others wld). rank w < n \<longrightarrow>
                  fs2 (seq_file (rank w)) = Some (Pickled (hd (children w)))"
    using fs2_o by auto
  have b: "\<forall>name. name \<notin> seq_file ` rank ` set (owner wld # others wld) \<longrightarrow>
             fs2 name = files wld name"
    using fs1_out fs2_other by auto
  show ?thesis
    using res a b by blast
qed

subsection \<open>Reading the shards back\<close>

lemma load_shards_present:
  assumes "\<forall>r \<in> set rs. fs (seq_file r) = Some (Pickled (shards ! r))"
  shows "load_shards rs fs = Inr (map (\<lambda>r. shards ! r) rs)"
  using assms by (induction rs) (simp_all add: torch_load_def)

lemma load_shards_upto:
  assumes "\<forall>r < length shards. fs (seq_file r) = Some (Pickled (shards ! r))"
  shows "load_shards [0..<length shards] fs = Inr shards"
proof -
  have "load_shards [0..<length shards] fs = Inr (map (\<lambda>r. shards ! r) [0..<length shards])"
    using assms by (intro load_shards_present) simp
  then show ?thesis
    by (simp add: map_nth)
qed

lemma load_shards_failure:
  assumes "r \<in> set rs" and "fs (seq_file r) = None \<or> fs (seq_file r) = Some Corrupt"
  shows "\<exists>e. load_shards rs fs = Inl e"
  using assms
proof (induction rs)
  case Nil
  then show ?case by simp
next
  case (Cons a rs)
  show ?case
  proof (cases "torch_load (seq_file a) fs")
    case (Inl e)
    then show ?thesis by simp
  next
    case (Inr seq)
    then have "a \<noteq> r"
      using Cons.prems(2) by (auto simp: torch_load_def)
    with Cons obtain e where "load_shards rs fs = Inl e"
      by auto
    with Inr show ?thesis by simp
  qed
qed

lemma add_module_fresh:
  assumes "name \<notin> fst ` set seq"
  shows "add_module name child seq = seq @ [(name, child)]"
  using assms unfolding add_module_def by (induction seq) auto

lemma add_children_fresh:
  assumes "distinct (map fst (seq @ p_seq))"
  shows "add_children p_seq seq = seq @ p_seq"
  using assms
proof (induction p_seq arbitrary: seq)
  case Nil
  then show ?case by (simp add: add_children_def)
next
  case (Cons c p_seq)
  obtain name child where c: "c = (name, child)"
    by (cases c)
  from Cons.prems have fresh: "name \<notin> fst ` set seq"
    by (auto simp: c)
  from Cons.prems have "distinct (map fst ((seq @ [(name, child)]) @ p_seq))"
    by (simp add: c)
  from Cons.IH [OF this] have "add_children p_seq (seq @ [(name, child)]) = seq @ (name, child) # p_seq"
    by simp
  then show ?case
    by (simp add: add_children_def c add_module_fresh [OF fresh])
qed

lemma fold_add_children_fresh:
  assumes "distinct (map fst (seq @ concat partial_seqs))"
  shows "fold add_children partial_seqs seq = seq @ concat partial_seqs"
  using assms
proof (induction partial_seqs arbitrary: seq)
  case Nil
  then show ?case by simp
next
  case (Cons p partial_seqs)
  from Cons.prems have "distinct (map fst (seq @ p))"
    by auto
  then have step: "add_children p seq = seq @ p"
    by (rule add_children_fresh)
  from Cons.prems have "distinct (map fst ((seq @ p) @ concat partial_seqs))"
    by simp
  from Cons.IH [OF this] step show ?case
    by simp
qed

lemma concat_shards_fresh:
  assumes "distinct (map fst (concat partial_seqs))"
  shows "concat_shards partial_seqs = concat partial_seqs"
  using fold_add_children_fresh [of "[]" partial_seqs] assms by (simp add: concat_shards_def)

lemma remove_shards_present:
  assumes "\<forall>r \<in> set rs. fs (seq_file r) \<noteq> None" and "distinct rs"
  shows "\<exists>fs'. remove_shards rs fs = (Inr (), fs')
           \<and> (\<forall>r \<in> set rs. fs' (seq_file r) = None)
           \<and> (\<forall>name. name \<notin> seq_file ` set rs \<longrightarrow> fs' name = fs name)"
  using assms
proof (induction rs arbitrary: fs)
  case Nil
  then show ?case by simp
next
  case (Cons a rs)
  let ?fs1 = "fs(seq_file a := None)"
  have rm: "os_remove (seq_file a) fs = (Inr (), ?fs1)"
    using Cons.prems(1) by (auto simp: os_remove_def)
  have "\<forall>r \<in> set rs. ?fs1 (seq_file r) \<noteq> None" and "distinct rs"
    using Cons.prems by auto
  from Cons.IH [OF this] obtain fs' where
    rest: "remove_shards rs ?fs1 = (Inr (), fs')"
    and gone: "\<forall>r \<in> set rs. fs' (seq_file r) = None"
    and kept: "\<forall>name. name \<notin> seq_file ` set rs \<longrightarrow> fs' name = ?fs1 name"
    by blast
  have run: "remove_shards (a # rs) fs = (Inr (), fs')"
    by (simp add: rm rest)
  have "seq_file a \<notin> seq_file ` set rs"
    using Cons.prems(2) by auto
  with kept have a_gone: "fs' (seq_file a) = None"
    by simp
  have b: "\<forall>name. name \<notin> seq_file ` set (a # rs) \<longrightarrow> fs' name = fs name"
    using kept by auto
  show ?case
    using run gone a_gone b by auto
qed

lemma reload_sequential_present:
  assumes "\<forall>r < length shards. fs (seq_file r) = Some (Pickled (shards ! r))"
    and "distinct (map fst (concat shards))"
  shows "\<exists>fs'. reload_sequential (length shards) fs = (Inr (concat shards), fs')
           \<and> (\<forall>r < length shards. fs' (seq_file r) = None)
           \<and> (\<forall>name. name \<notin> seq_file ` {..<length shards} \<longrightarrow> fs' name = fs name)"
proof -
  have load: "load_shards [0..<length shards] fs = Inr shards"
    using assms(1) by (rule load_shards_upto)
  have "\<forall>r \<in> set [0..<length shards]. fs (seq_file r) \<noteq> None"
    using assms(1) by simp
  from remove_shards_present [OF this] obtain fs' where
    rm: "remove_shards [0..<length shards] fs = (Inr (), fs')"
    and gone: "\<forall>r \<in> set [0..<length shards]. fs' (seq_file r) = None"
    and kept: "\<forall>name. name \<notin> seq_file ` set [0..<length shards] \<longrightarrow> fs' name = fs name"
    by auto
  have "reload_sequential (length shards) fs = (Inr (concat shards), fs')"
    by (simp add: reload_sequential_def load rm concat_shards_fresh [OF assms(2)])
  moreover have "\<forall>r < length shards. fs' (seq_file r) = None"
    using gone by simp
  moreover have "\<forall>name. name \<notin> seq_file ` {..<length shards} \<longrightarrow> fs' name = fs name"
    using kept by (simp add: lessThan_atLeast0)
  ultimately show ?thesis
    by blast
qed

lemma reload_sequential_failure:
  assumes "r < n" and "fs (seq_file r) = None \<or> fs (seq_file r) = Some Corrupt"
  shows "\<exists>e. reload_sequential n fs = (Inl e, fs)"
proof -
  from assms(1) have "r \<in> set [0..<n]"
    by simp
  with assms(2) obtain e where "load_shards [0..<n] fs = Inl e"
    using load_shards_failure [of r "[0..<n]" fs] by blast
  then show ?thesis
    by (simp add: reload_sequential_def)
qed

subsection \<open>Checkpoint round trip\<close>

lemma same_rank_same_worker:
  assumes "distinct (map rank ws)" and "w \<in> set ws" and "v \<in> set ws" and "rank w = rank v"
  shows "w = v"
  using assms by (auto simp: distinct_map dest: inj_onD)

text \<open>
  C7. Let the original sequential module be cut into \<open>N\<close> shards in rank order, so that
  its children are \<open>concat shards\<close> (with distinct names, as in any module), and let the
  process of rank \<open>r\<close> hold shard \<open>r\<close> as the first child of its local model, for every
  \<open>r < N\<close>. Then the save broadcast succeeds, reloading returns exactly the original
  children, names and layers in order, and none of the \<open>N\<close> shard files is left.
\<close>

theorem save_reload_round_trip:
  assumes dist: "distinct (map rank (owner wld # others wld))"
    and held: "\<forall>r < length shards. \<exists>w \<in> set (owner wld # others wld).
                 rank w = r \<and> children w \<noteq> [] \<and> hd (children w) = shards ! r"
    and names: "distinct (map fst (concat shards))"
  shows "\<exists>wld1 fs2.
           foreach_worker (save (length shards)) True wld = (Inr (), wld1)
         \<and> reload_sequential (length shards) (files wld1) = (Inr (concat shards), fs2)
         \<and> (\<forall>r < length shards. fs2 (seq_file r) = None)"
proof -
  let ?ws = "owner wld # others wld"
  let ?n = "length shards"
  have holder: "children w \<noteq> [] \<and> hd (children w) = shards ! rank w"
    if "w \<in> set ?ws" and "rank w < ?n" for w
  proof -
    from held that(2) obtain v where v: "v \<in> set ?ws" "rank v = rank w"
      "children v \<noteq> []" "hd (children v) = shards ! rank w"
      by blast
    from same_rank_same_worker [OF dist v(1) that(1) v(2)] have "v = w" .
    with v show ?thesis
      by simp
  qed
  then have "\<forall>w \<in> set ?ws. rank w < ?n \<longrightarrow> children w \<noteq> []"
    by blast
  from foreach_worker_save [OF this dist] obtain fs1 where
    saved: "foreach_worker (save ?n) True wld = (Inr (), wld\<lparr>files := fs1\<rparr>)"
    and fs1: "\<forall>w \<in> set ?ws. rank w < ?n \<longrightarrow>
                fs1 (seq_file (rank w)) = Some (Pickled (hd (children w)))"
    by blast
  have "fs1 (seq_file r) = Some (Pickled (shards ! r))" if "r < ?n" for r
  proof -
    from held that obtain w where "w \<in> set ?ws" "rank w = r" "hd (children w) = shards ! r"
      by blast
    with fs1 that show ?thesis
      by auto
  qed
  then have "\<forall>r < ?n. files (wld\<lparr>files := fs1\<rparr>) (seq_file r) = Some (Pickled (shards ! r))"
    by simp
  from reload_sequential_present [OF this names] obtain fs2 where
    "reload_sequential ?n (files (wld\<lparr>files := fs1\<rparr>)) = (Inr (concat shards), fs2)"
    and "\<forall>r < ?n. fs2 (seq_file r) = None"
    by blast
  with saved show ?thesis
    by blast
qed

theorem save_reload_round_trip_witness:
  "\<exists>wld1 fs2.
     foreach_worker (save 2) True world_2 = (Inr (), wld1)
   \<and> reload_sequential 2 (files wld1) = (Inr three_layers, fs2)
   \<and> fs2 ''seq_0.pt'' = None \<and> fs2 ''seq_1.pt'' = None"
proof -
  let ?shards = "[[(''0'', 10), (''1'', 11)], [(''2'', 12)]] :: nat named_children list"
  have dist: "distinct (map rank (owner world_2 # others world_2))"
    by (simp add: world_2_def worker_0_def worker_1_def)
  have held: "\<forall>r < length ?shards. \<exists>w \<in> set (owner world_2 # others world_2).
                rank w = r \<and> children w \<noteq> [] \<and> hd (children w) = ?shards ! r"
    by (simp add: world_2_def worker_0_def worker_1_def less_Suc_eq)
  have names: "distinct (map fst (concat ?shards))"
    by simp
  have "length ?shards = 2" and "concat ?shards = three_layers"
    by (simp_all add: three_layers_def)
  with save_reload_round_trip [OF dist held names] show ?thesis
    by (simp add: numeral_2_eq_2 less_Suc_eq all_conj_distrib seq_file_0 seq_file_1 [simplified])
qed

subsection \<open>Saving through the pipeline\<close>

text \<open>
  C9. When \<^verbatim>\<open>rpc_save_model\<close> returns normally on a pipelined model, the module's
  \<^verbatim>\<open>layers\<close> attribute is the object it was before the call; the reconstructed
  sequential module was in its place only in the module handed to \<^verbatim>\<open>save_model_fn\<close>.
\<close>

theorem rpc_save_model_restores_layers:
  assumes "has_foreach_worker model"
    and "rpc_save_model self save_model_fn last_filepath model st = (Inr (), st')"
  shows "layers (pl_module st') = layers (pl_module st)
       \<and> layers (pl_module st) \<noteq> None
       \<and> (\<exists>seq pm2. save_model_fn last_filepath
                        ((pl_module st)\<lparr>layers := Some (Sequential seq)\<rparr>) (storage st)
                      = (Inr (), pm2, storage st'))"
  using assms
  by (fastforce simp: rpc_save_model_def Let_def
      split: option.splits prod.splits sum.splits if_splits)

lemma foreach_worker_save_world_2:
  "foreach_worker (save 2) True world_2 =
     (Inr (),
      world_2\<lparr>files := [''seq_1.pt'' \<mapsto> Pickled [(''2'', 12)],
                        ''seq_0.pt'' \<mapsto> Pickled [(''0'', 10), (''1'', 11)]]\<rparr>)"
  by (simp add: foreach_worker_def save_def world_2_def worker_0_def worker_1_def
      seq_file_0 seq_file_1 [simplified])

lemma upt_2: "[0..<2] = [0, Suc 0]"
  by (simp add: upt_rec [of 0] upt_rec [of "Suc 0"])

lemma reload_sequential_world_2:
  "reload_sequential 2 [''seq_1.pt'' \<mapsto> Pickled [(''2'', 12::nat)],
                        ''seq_0.pt'' \<mapsto> Pickled [(''0'', 10), (''1'', 11)]] =
     (Inr three_layers, Map.empty)"
  by (simp add: reload_sequential_def upt_2 torch_load_def os_remove_def concat_shards_def
      add_children_def add_module_def three_layers_def seq_file_0 [simplified] seq_file_1 [simplified])

lemma rpc_save_model_state_2:
  "rpc_save_model (plugin_2_1\<lparr>num_gpus_per_model := Some 2\<rparr>) write_checkpoint ''last.ckpt''
       pipelined_model save_state_2 =
     (Inr (),
      \<lparr> pl_module = pipelined_model,
        cluster = world_2\<lparr>files := Map.empty\<rparr>,
        storage = [(''last.ckpt'', Some (Sequential three_layers))] \<rparr>)"
  by (simp add: rpc_save_model_def save_state_2_def foreach_worker_save_world_2
      reload_sequential_world_2 write_checkpoint_def pipelined_model_def)

theorem rpc_save_model_restores_layers_witness:
  "\<exists>st'. rpc_save_model (plugin_2_1\<lparr>num_gpus_per_model := Some 2\<rparr>) write_checkpoint
            ''last.ckpt'' pipelined_model save_state_2 = (Inr (), st')
         \<and> layers (pl_module st') = Some pipe_layers
         \<and> storage st' = [(''last.ckpt'', Some (Sequential three_layers))]"
proof -
  have pipelined: "has_foreach_worker pipelined_model"
    by (simp add: pipelined_model_def)
  have before: "layers (pl_module save_state_2) = Some pipe_layers"
    by (simp add: save_state_2_def pipelined_model_def)
  show ?thesis
    using rpc_save_model_restores_layers [OF pipelined rpc_save_model_state_2] before
      rpc_save_model_state_2
    by simp
qed

text \<open>
  C8. A reload that finds a shard file missing or unreadable is to fail, write no
  checkpoint and still delete the shard files that were written. The last part does not
  hold: with two shards expected and only rank 0 in the group, the reload fails on
  \<open>seq_1.pt\<close>, nothing reaches the storage, and \<open>seq_0.pt\<close> is still there.
\<close>

theorem rpc_save_model_leaves_shard_files:
  "rpc_save_model (plugin_2_1\<lparr>num_gpus_per_model := Some 2\<rparr>) write_checkpoint
       ''last.ckpt'' pipelined_model (save_state_2\<lparr>cluster := world_2\<lparr>others := []\<rparr>\<rparr>) =
     (Inl (FileNotFoundError ''seq_1.pt''),
      save_state_2\<lparr>cluster :=
        world_2\<lparr>others := [],
                files := [''seq_0.pt'' \<mapsto> Pickled [(''0'', 10), (''1'', 11)]]\<rparr>\<rparr>)
   \<and> files (world_2\<lparr>others := [],
                     files := [''seq_0.pt'' \<mapsto> Pickled [(''0'', 10), (''1'', 11)]]\<rparr>)
         (seq_file 0) = Some (Pickled [(''0'', 10), (''1'', 11)])"
  by (simp add: rpc_save_model_def save_state_2_def pipelined_model_def foreach_worker_def
      save_def world_2_def worker_0_def reload_sequential_def upt_2 torch_load_def
      seq_file_0 seq_file_1 [simplified])

text \<open>
  C8, amended. If, after the save broadcast, the file of some rank below the shard count
  is missing or does not unpickle, \<^verbatim>\<open>rpc_save_model\<close> raises; \<^verbatim>\<open>save_model_fn\<close> is not
  run (the storage and the module, layers included, are as before the call, whatever
  \<^verbatim>\<open>save_model_fn\<close> is), and the working directory is as the broadcast left it: no
  shard file is deleted.
\<close>

theorem rpc_save_model_failed_reload:
  assumes "has_foreach_worker model"
    and "layers (pl_module st) = Some current_layers"
    and "num_gpus_per_model self = Some n"
    and "foreach_worker (save n) True (cluster st) = (Inr (), wld1)"
    and "r < n"
    and "files wld1 (seq_file r) = None \<or> files wld1 (seq_file r) = Some Corrupt"
  shows "\<exists>e. rpc_save_model self save_model_fn last_filepath model st = (Inl e, st\<lparr>cluster := wld1\<rparr>)"
proof -
  from assms(5,6) obtain e where "reload_sequential n (files wld1) = (Inl e, files wld1)"
    using reload_sequential_failure [of r n "files wld1"] by blast
  with assms(1-4) show ?thesis
    by (simp add: rpc_save_model_def)
qed

theorem rpc_save_model_failed_reload_witness:
  "\<exists>e. rpc_save_model (plugin_2_1\<lparr>num_gpus_per_model := Some 2\<rparr>) write_checkpoint
          ''last.ckpt'' pipelined_model (save_state_2\<lparr>cluster := world_2\<lparr>others := []\<rparr>\<rparr>) =
        (Inl e,
         save_state_2\<lparr>cluster :=
           world_2\<lparr>others := [],
                   files := [''seq_0.pt'' \<mapsto> Pickled [(''0'', 10), (''1'', 11)]]\<rparr>\<rparr>)"
proof -
  let ?wld1 = "world_2\<lparr>others := [],
                       files := [''seq_0.pt'' \<mapsto> Pickled [(''0'', 10), (''1'', 11)]]\<rparr>"
  let ?st = "save_state_2\<lparr>cluster := world_2\<lparr>others := []\<rparr>\<rparr>"
  have h1: "has_foreach_worker pipelined_model"
    by (simp add: pipelined_model_def)
  have h2: "layers (pl_module ?st) = Some pipe_layers"
    by (simp add: save_state_2_def pipelined_model_def)
  have h3: "num_gpus_per_model (plugin_2_1\<lparr>num_gpus_per_model := Some 2\<rparr>) = Some 2"
    by simp
  have h4: "foreach_worker (save 2) True (cluster ?st) = (Inr (), ?wld1)"
    by (simp add: foreach_worker_def save_def save_state_2_def world_2_def worker_0_def seq_file_0)
  have h5: "(1::nat) < 2"
    by simp
  have h6: "files ?wld1 (seq_file 1) = None \<or> files ?wld1 (seq_file 1) = Some Corrupt"
    by (simp add: seq_file_1 [simplified])
  show ?thesis
    using rpc_save_model_failed_reload [OF h1 h2 h3 h4 h5 h6, of write_checkpoint "''last.ckpt''"]
    by simp
qed

text \<open>An instance of C10: the model without a pipeline, and a \<^verbatim>\<open>save_model_fn\<close> that
  would write.\<close>

theorem rpc_save_model_not_pipelined_witness:
  "rpc_save_model (plugin_2_1\<lparr>num_gpus_per_model := Some 2\<rparr>) write_checkpoint ''last.ckpt''
       (model_of_layers three_layers)
       (save_state_2\<lparr>pl_module := model_of_layers three_layers\<rparr>) =
     (Inr (), save_state_2\<lparr>pl_module := model_of_layers three_layers\<rparr>)"
proof -
  have "\<not> has_foreach_worker (model_of_layers three_layers)"
    by (simp add: model_of_layers_def)
  then show ?thesis
    by (rule rpc_save_model_not_pipelined)
qed

subsection \<open>Balance inference\<close>

lemma init_model_parallel_groups_keeps_balance:
  "init_model_parallel_groups self world_size = (r, self1) \<Longrightarrow> balance self1 = balance self"
  by (auto simp: init_model_parallel_groups_def Let_def split: option.splits sum.splits if_splits)

lemma init_model_parallel_groups_needs_balance:
  "init_model_parallel_groups self world_size = (Inr c, self1) \<Longrightarrow> balance self1 \<noteq> None"
  by (auto simp: init_model_parallel_groups_def Let_def split: option.splits sum.splits if_splits)

lemma init_distributed_connection_never_infers:
  "init_distributed_connection is_initialized device_count pipe_balance self trainer
       global_rank world_size =
   init_distributed_connection is_initialized device_count' pipe_balance' self trainer
       global_rank world_size"
proof (cases "init_model_parallel_groups self world_size")
  case (Pair r self1)
  show ?thesis
  proof (cases r)
    case (Inl e)
    with Pair show ?thesis
      by (simp add: init_distributed_connection_def Let_def split: sum.splits)
  next
    case (Inr c)
    with Pair obtain b where "balance self1 = Some b"
      using init_model_parallel_groups_needs_balance [of self world_size c self1] by auto
    with Pair Inr show ?thesis
      by (simp add: init_distributed_connection_def Let_def split: sum.splits)
  qed
qed

text \<open>
  C5. Without an explicit balance the plugin is to reach balance inference at connection
  setup. It does not: the constructor given no balance raises, so there is no plugin to
  set up a connection with.
\<close>

theorem PipeRPCPlugin_init_without_balance:
  "PipeRPCPlugin_init None None 8 ''except_last'' ''balance_by_size'' (Some True) =
     Inl (MisconfigurationException
       (''Please, provide a balance for your model. '' @
        ''Example: nn.Sequential(torch.nn.Linear(32, 32), nn.ReLU(), nn.Linear(32, 2)) contains 3 layers. '' @
        ''A possible balance between 2 gpus is [2, 1]''))"
  by (simp add: PipeRPCPlugin_init_def)

text \<open>
  C5, amended. Constructing the plugin without a balance raises a configuration error,
  whatever the other arguments, and a plugin that was constructed holds a balance. The
  inference routine itself raises a configuration error exactly when the model has no
  example input; with one, a known strategy name and a \<^verbatim>\<open>layers\<close> attribute, it returns
  what the selected strategy computes for the partition count (\<^verbatim>\<open>num_partitions\<close> when
  given, else the visible device count).
\<close>

theorem infer_model_balance_cases:
  "(\<exists>msg. PipeRPCPlugin_init None num_partitions_arg microbatches_arg checkpoint_arg
             balance_mode_arg pipelined_backward_arg = Inl (MisconfigurationException msg))
   \<and> (\<forall>self0. PipeRPCPlugin_init balance_arg num_partitions_arg microbatches_arg checkpoint_arg
             balance_mode_arg pipelined_backward_arg = Inr self0 \<longrightarrow> balance self0 \<noteq> None)
   \<and> ((\<exists>msg. infer_model_balance device_count pipe_balance self model =
               Inl (MisconfigurationException msg))
        \<longleftrightarrow> example_input_array model = None)
   \<and> (\<forall>x balance_func ls.
         example_input_array model = Some x \<longrightarrow>
         pipe_balance (balance_mode self) = Some balance_func \<longrightarrow>
         layers model = Some ls \<longrightarrow>
         infer_model_balance device_count pipe_balance self model =
           Inr (balance_func
                  (case num_partitions self of None \<Rightarrow> device_count | Some n \<Rightarrow> n) ls x))"
proof (intro conjI)
  show "\<exists>msg. PipeRPCPlugin_init None num_partitions_arg microbatches_arg checkpoint_arg
             balance_mode_arg pipelined_backward_arg = Inl (MisconfigurationException msg)"
    by (simp add: PipeRPCPlugin_init_def)
  show "\<forall>self0. PipeRPCPlugin_init balance_arg num_partitions_arg microbatches_arg checkpoint_arg
             balance_mode_arg pipelined_backward_arg = Inr self0 \<longrightarrow> balance self0 \<noteq> None"
    by (auto simp: PipeRPCPlugin_init_def split: if_splits)
  show "(\<exists>msg. infer_model_balance device_count pipe_balance self model =
               Inl (MisconfigurationException msg))
        \<longleftrightarrow> example_input_array model = None"
    by (auto simp: infer_model_balance_def Let_def split: option.splits)
  show "\<forall>x balance_func ls.
         example_input_array model = Some x \<longrightarrow>
         pipe_balance (balance_mode self) = Some balance_func \<longrightarrow>
         layers model = Some ls \<longrightarrow>
         infer_model_balance device_count pipe_balance self model =
           Inr (balance_func
                  (case num_partitions self of None \<Rightarrow> device_count | Some n \<Rightarrow> n) ls x)"
    by (simp add: infer_model_balance_def Let_def)
qed

theorem infer_model_balance_cases_witness:
  "(\<exists>msg. infer_model_balance 3 pipe_balance_by_size_only plugin_2_1
            (model_of_layers three_layers) = Inl (MisconfigurationException msg))
   \<and> infer_model_balance 3 pipe_balance_by_size_only plugin_2_1
        ((model_of_layers three_layers)\<lparr>example_input_array := Some 5\<rparr>) = Inr [1, 1, 1]
   \<and> PipeRPCPlugin_init (Some [2, 1]) None 8 ''except_last'' ''balance_by_size'' (Some True) =
       Inr plugin_2_1
   \<and> balance plugin_2_1 \<noteq> None"
proof -
  let ?m = "model_of_layers three_layers"
  let ?m' = "?m\<lparr>example_input_array := Some 5\<rparr>"
  have none: "example_input_array ?m = None"
    by (simp add: model_of_layers_def)
  have some: "example_input_array ?m' = Some 5"
    by simp
  have strategy: "pipe_balance_by_size_only (balance_mode plugin_2_1) =
      Some (\<lambda>partitions ls x. replicate partitions 1)"
    by (simp add: pipe_balance_by_size_only_def plugin_2_1_def)
  have ls: "layers ?m' = Some (Sequential three_layers)"
    by (simp add: model_of_layers_def)
  have parts: "(case num_partitions plugin_2_1 of None \<Rightarrow> 3 | Some n \<Rightarrow> n) = (3::nat)"
    by (simp add: plugin_2_1_def)
  have built: "PipeRPCPlugin_init (Some [2, 1]) None 8 ''except_last'' ''balance_by_size''
      (Some True) = Inr plugin_2_1"
    by (simp add: PipeRPCPlugin_init_def plugin_2_1_def)
  have three: "replicate 3 (1::int) = [1, 1, 1]"
    by (simp add: numeral_3_eq_3)
  show ?thesis
    using infer_model_balance_cases [of None 8 "''except_last''" "''balance_by_size''" "Some True"
        "Some [2, 1]" 3 pipe_balance_by_size_only plugin_2_1 ?m]
      infer_model_balance_cases [of None 8 "''except_last''" "''balance_by_size''" "Some True"
        "Some [2, 1]" 3 pipe_balance_by_size_only plugin_2_1 ?m']
      none some strategy ls parts built three
    by simp
qed

end
